theory Spec2Isabelle
  imports Main
begin

section \<open>Feast feature definitions: the data model\<close>

text \<open>
  The module \<^verbatim>\<open>feature-definitions.py\<close> declares entities, data sources, feature views
  and feature services as module-level objects, collects them in four lists and registers
  three of the lists with a store. The classes come from the \<^verbatim>\<open>feast\<close> package; an
  object is modelled by the keyword arguments its constructor is called with.
\<close>

datatype ValueType = INT64 | STRING | FLOAT | BOOL

text \<open>A Python \<^verbatim>\<open>dict\<close> literal of tags, in the order it is written.\<close>

type_synonym tags = "(string \<times> string) list"

text \<open>\<^verbatim>\<open>Entity(name=, value_type=, description=, tags=)\<close>\<close>

datatype entity = Entity
  (entity_name: string)
  (value_type: ValueType)
  (entity_description: string)
  (entity_tags: tags)

text \<open>
  \<^verbatim>\<open>Feature(name=, dtype=, description=)\<close>; the description is absent in the schema of
  the request source.
\<close>

datatype feature = Feature
  (feature_name: string)
  (dtype: ValueType)
  (feature_description: "string option")

text \<open>
  \<^verbatim>\<open>FileSource(name=, path=, timestamp_field=, created_timestamp_column=, description=, tags=)\<close>
  and \<^verbatim>\<open>RequestSource(name=, schema=, description=)\<close>.
\<close>

datatype data_source =
  FileSource string string string string string tags
| RequestSource string "feature list" string

text \<open>
  \<^verbatim>\<open>datetime.timedelta\<close>, held as the whole number of seconds of the duration, which is
  what two timedeltas are compared by. The module passes \<^verbatim>\<open>days=\<close> or \<^verbatim>\<open>hours=\<close>;
  the argument left out is 0.
\<close>

type_synonym timedelta = int

definition timedelta :: "int \<Rightarrow> int \<Rightarrow> timedelta" where
  "timedelta days hours = days * 86400 + hours * 3600"

text \<open>\<^verbatim>\<open>FeatureView(name=, entities=, ttl=, features=, online=, batch_source=, tags=)\<close>\<close>

record feature_view =
  view_name :: string
  entities :: "string list"
  ttl :: timedelta
  features :: "feature list"
  online :: bool
  batch_source :: data_source
  view_tags :: tags

text \<open>
  \<^verbatim>\<open>view[[n1, n2, ...]]\<close>: the selection a feature service makes from a view, held as
  the view and the feature names asked for.
\<close>

record feature_selection =
  selected_view :: feature_view
  selected_names :: "string list"

definition getitem :: "feature_view \<Rightarrow> string list \<Rightarrow> feature_selection" where
  "getitem v ns = \<lparr>selected_view = v, selected_names = ns\<rparr>"

text \<open>\<^verbatim>\<open>FeatureService(name=, features=, tags=)\<close>\<close>

record feature_service =
  service_name :: string
  service_features :: "feature_selection list"
  service_tags :: tags


section \<open>Entities\<close>

definition user_entity :: entity where
  "user_entity = Entity ''user_id'' INT64
     ''Unique identifier for users/customers''
     [(''team'', ''customer_analytics''), (''domain'', ''user'')]"

definition driver_entity :: entity where
  "driver_entity = Entity ''driver_id'' INT64
     ''Unique identifier for drivers''
     [(''team'', ''driver_analytics''), (''domain'', ''driver'')]"

definition product_entity :: entity where
  "product_entity = Entity ''product_id'' STRING
     ''Unique identifier for products''
     [(''team'', ''product_analytics''), (''domain'', ''product'')]"

definition location_entity :: entity where
  "location_entity = Entity ''location_id'' INT64
     ''Unique identifier for geographical locations''
     [(''team'', ''geo_analytics''), (''domain'', ''location'')]"


section \<open>Data sources\<close>

definition user_activity_source :: data_source where
  "user_activity_source = FileSource ''user_activity_source''
     ''s3://ai-ml-platform-ml-dev-datasets/feast/user_activity/''
     ''event_timestamp'' ''created_timestamp''
     ''User activity and engagement metrics''
     [(''source'', ''user_events''), (''format'', ''parquet'')]"

definition driver_performance_source :: data_source where
  "driver_performance_source = FileSource ''driver_performance_source''
     ''s3://ai-ml-platform-ml-dev-datasets/feast/driver_performance/''
     ''event_timestamp'' ''created_timestamp''
     ''Driver performance and behavior metrics''
     [(''source'', ''driver_events''), (''format'', ''parquet'')]"

definition product_catalog_source :: data_source where
  "product_catalog_source = FileSource ''product_catalog_source''
     ''s3://ai-ml-platform-ml-dev-datasets/feast/product_catalog/''
     ''event_timestamp'' ''created_timestamp''
     ''Product information and metadata''
     [(''source'', ''product_catalog''), (''format'', ''parquet'')]"

definition transaction_source :: data_source where
  "transaction_source = FileSource ''transaction_source''
     ''s3://ai-ml-platform-ml-dev-datasets/feast/transactions/''
     ''event_timestamp'' ''created_timestamp''
     ''Financial transaction data''
     [(''source'', ''transactions''), (''format'', ''parquet'')]"

definition user_activity_stream_source :: data_source where
  "user_activity_stream_source = RequestSource ''user_activity_stream_source''
     [Feature ''current_session_duration'' INT64 None,
      Feature ''pages_viewed_session'' INT64 None,
      Feature ''current_device_type'' STRING None]
     ''Real-time user activity for current session''"


section \<open>Feature views\<close>

definition user_engagement_features :: feature_view where
  "user_engagement_features = \<lparr>
     view_name = ''user_engagement_features'',
     entities = [''user_id''],
     ttl = timedelta 7 0,
     features = [
       Feature ''total_sessions_7d'' INT64 (Some ''Total sessions in last 7 days''),
       Feature ''avg_session_duration_7d'' FLOAT
         (Some ''Average session duration in last 7 days (minutes)''),
       Feature ''total_page_views_7d'' INT64 (Some ''Total page views in last 7 days''),
       Feature ''unique_pages_viewed_7d'' INT64 (Some ''Unique pages viewed in last 7 days''),
       Feature ''bounce_rate_7d'' FLOAT (Some ''Bounce rate in last 7 days''),
       Feature ''conversion_rate_7d'' FLOAT (Some ''Conversion rate in last 7 days''),
       Feature ''last_activity_hours_ago'' FLOAT (Some ''Hours since last activity'')],
     online = True,
     batch_source = user_activity_source,
     view_tags = [(''team'', ''growth''), (''category'', ''engagement'')]\<rparr>"

definition user_demographics_features :: feature_view where
  "user_demographics_features = \<lparr>
     view_name = ''user_demographics_features'',
     entities = [''user_id''],
     ttl = timedelta 30 0,
     features = [
       Feature ''age_group'' STRING (Some ''User age group (18-25, 26-35, etc.)''),
       Feature ''country'' STRING (Some ''User country''),
       Feature ''city'' STRING (Some ''User city''),
       Feature ''signup_days_ago'' INT64 (Some ''Days since user signup''),
       Feature ''is_premium_user'' BOOL (Some ''Whether user has premium subscription''),
       Feature ''preferred_language'' STRING (Some ''User's preferred language'')],
     online = True,
     batch_source = user_activity_source,
     view_tags = [(''team'', ''customer_success''), (''category'', ''demographics'')]\<rparr>"

definition driver_performance_features :: feature_view where
  "driver_performance_features = \<lparr>
     view_name = ''driver_performance_features'',
     entities = [''driver_id''],
     ttl = timedelta 1 0,
     features = [
       Feature ''avg_rating_30d'' FLOAT (Some ''Average driver rating in last 30 days''),
       Feature ''total_trips_30d'' INT64 (Some ''Total trips completed in last 30 days''),
       Feature ''total_earnings_30d'' FLOAT (Some ''Total earnings in last 30 days''),
       Feature ''acceptance_rate_30d'' FLOAT (Some ''Trip acceptance rate in last 30 days''),
       Feature ''cancellation_rate_30d'' FLOAT
         (Some ''Trip cancellation rate in last 30 days''),
       Feature ''avg_trip_duration_30d'' FLOAT
         (Some ''Average trip duration in last 30 days (minutes)''),
       Feature ''peak_hours_activity_30d'' FLOAT
         (Some ''Percentage of activity during peak hours'')],
     online = True,
     batch_source = driver_performance_source,
     view_tags = [(''team'', ''driver_ops''), (''category'', ''performance'')]\<rparr>"

definition product_features :: feature_view where
  "product_features = \<lparr>
     view_name = ''product_features'',
     entities = [''product_id''],
     ttl = timedelta 1 0,
     features = [
       Feature ''category'' STRING (Some ''Product category''),
       Feature ''price'' FLOAT (Some ''Current product price''),
       Feature ''discount_percentage'' FLOAT (Some ''Current discount percentage''),
       Feature ''avg_rating'' FLOAT (Some ''Average product rating''),
       Feature ''total_reviews'' INT64 (Some ''Total number of reviews''),
       Feature ''inventory_count'' INT64 (Some ''Current inventory count''),
       Feature ''is_trending'' BOOL (Some ''Whether product is currently trending''),
       Feature ''days_since_launch'' INT64 (Some ''Days since product launch'')],
     online = True,
     batch_source = product_catalog_source,
     view_tags = [(''team'', ''product''), (''category'', ''catalog'')]\<rparr>"

definition transaction_features :: feature_view where
  "transaction_features = \<lparr>
     view_name = ''transaction_features'',
     entities = [''user_id''],
     ttl = timedelta 7 0,
     features = [
       Feature ''total_spent_7d'' FLOAT (Some ''Total amount spent in last 7 days''),
       Feature ''total_spent_30d'' FLOAT (Some ''Total amount spent in last 30 days''),
       Feature ''transaction_count_7d'' INT64
         (Some ''Number of transactions in last 7 days''),
       Feature ''transaction_count_30d'' INT64
         (Some ''Number of transactions in last 30 days''),
       Feature ''avg_transaction_amount_30d'' FLOAT
         (Some ''Average transaction amount in last 30 days''),
       Feature ''max_transaction_amount_30d'' FLOAT
         (Some ''Maximum transaction amount in last 30 days''),
       Feature ''unique_merchants_30d'' INT64
         (Some ''Number of unique merchants in last 30 days''),
       Feature ''failed_transactions_7d'' INT64
         (Some ''Number of failed transactions in last 7 days'')],
     online = True,
     batch_source = transaction_source,
     view_tags = [(''team'', ''payments''), (''category'', ''transactions'')]\<rparr>"

definition user_session_features :: feature_view where
  "user_session_features = \<lparr>
     view_name = ''user_session_features'',
     entities = [''user_id''],
     ttl = timedelta 0 1,
     features = [
       Feature ''current_session_duration'' INT64
         (Some ''Current session duration in minutes''),
       Feature ''pages_viewed_session'' INT64 (Some ''Pages viewed in current session''),
       Feature ''current_device_type'' STRING (Some ''Device type for current session'')],
     online = True,
     batch_source = user_activity_stream_source,
     view_tags = [(''team'', ''real_time''), (''category'', ''session'')]\<rparr>"


section \<open>Feature services\<close>

definition recommendation_feature_service :: feature_service where
  "recommendation_feature_service = \<lparr>
     service_name = ''recommendation_v1'',
     service_features = [
       getitem user_engagement_features
         [''total_sessions_7d'', ''avg_session_duration_7d'', ''conversion_rate_7d''],
       getitem user_demographics_features [''age_group'', ''country'', ''is_premium_user''],
       getitem transaction_features [''total_spent_30d'', ''avg_transaction_amount_30d''],
       getitem product_features [''category'', ''price'', ''avg_rating'', ''is_trending'']],
     service_tags = [(''model'', ''recommendation''), (''version'', ''v1'')]\<rparr>"

definition fraud_detection_feature_service :: feature_service where
  "fraud_detection_feature_service = \<lparr>
     service_name = ''fraud_detection_v1'',
     service_features = [
       getitem transaction_features
         [''transaction_count_7d'', ''avg_transaction_amount_30d'', ''failed_transactions_7d''],
       getitem user_demographics_features [''country'', ''signup_days_ago''],
       getitem user_session_features [''current_device_type'']],
     service_tags = [(''model'', ''fraud_detection''), (''version'', ''v1'')]\<rparr>"

definition driver_matching_feature_service :: feature_service where
  "driver_matching_feature_service = \<lparr>
     service_name = ''driver_matching_v1'',
     service_features = [
       getitem driver_performance_features
         [''avg_rating_30d'', ''acceptance_rate_30d'', ''total_trips_30d'']],
     service_tags = [(''model'', ''driver_matching''), (''version'', ''v1'')]\<rparr>"

definition churn_prediction_feature_service :: feature_service where
  "churn_prediction_feature_service = \<lparr>
     service_name = ''churn_prediction_v1'',
     service_features = [
       getitem user_engagement_features
         [''total_sessions_7d'', ''last_activity_hours_ago'', ''bounce_rate_7d''],
       getitem user_demographics_features [''signup_days_ago'', ''is_premium_user''],
       getitem transaction_features [''transaction_count_30d'', ''total_spent_30d'']],
     service_tags = [(''model'', ''churn_prediction''), (''version'', ''v1'')]\<rparr>"


section \<open>The feature store registry\<close>

text \<open>
  The four module-level lists. They are Python lists bound to global names, so they are
  state: every function of the module reads them from the globals at the time it runs.
\<close>

record module_globals =
  ENTITIES :: "entity list"
  FEATURE_VIEWS :: "feature_view list"
  FEATURE_SERVICES :: "feature_service list"
  DATA_SOURCES :: "data_source list"

text \<open>The values the four names are bound to once the module is loaded.\<close>

definition module_load :: module_globals where
  "module_load = \<lparr>
     ENTITIES = [user_entity, driver_entity, product_entity, location_entity],
     FEATURE_VIEWS = [user_engagement_features, user_demographics_features,
       driver_performance_features, product_features, transaction_features,
       user_session_features],
     FEATURE_SERVICES = [recommendation_feature_service, fraud_detection_feature_service,
       driver_matching_feature_service, churn_prediction_feature_service],
     DATA_SOURCES = [user_activity_source, driver_performance_source,
       product_catalog_source, transaction_source, user_activity_stream_source]\<rparr>"


section \<open>Registration with the store\<close>

text \<open>
  What \<^verbatim>\<open>store.apply\<close> is handed: one of the module's lists.
\<close>

datatype objects =
  EntityList "entity list"
| FeatureViewList "feature_view list"
| FeatureServiceList "feature_service list"
| DataSourceList "data_source list"

text \<open>
  What the module does to the outside, in the order it does it: a line printed with
  \<^verbatim>\<open>print\<close>, a call \<^verbatim>\<open>FeatureStore(repo_path=p)\<close>, a call \<^verbatim>\<open>store.apply(objs)\<close>.
\<close>

datatype event =
  Print string
| Construct string
| Apply objects

record world =
  events :: "event list"
  globals :: module_globals

text \<open>
  The store is an object of the \<^verbatim>\<open>feast\<close> package. Its \<^verbatim>\<open>apply\<close> method is a
  parameter \<open>ap\<close> of the model, given by what it does with a list of each class. It is
  handed the list object itself, not a copy: from the state of the store and the list it
  gives the exception it raises, if any, the state it leaves the store in, and the list
  as it leaves it (a store may remove, add or replace elements in place).
\<close>

record ('s, 'e) apply_method =
  on_entities :: "'s \<Rightarrow> entity list \<Rightarrow> 'e option \<times> 's \<times> entity list"
  on_feature_views :: "'s \<Rightarrow> feature_view list \<Rightarrow> 'e option \<times> 's \<times> feature_view list"
  on_feature_services ::
    "'s \<Rightarrow> feature_service list \<Rightarrow> 'e option \<times> 's \<times> feature_service list"
  on_data_sources :: "'s \<Rightarrow> data_source list \<Rightarrow> 'e option \<times> 's \<times> data_source list"

definition print :: "string \<Rightarrow> world \<Rightarrow> world" where
  "print line w = w\<lparr>events := events w @ [Print line]\<rparr>"

text \<open>
  \<^verbatim>\<open>store.apply(ENTITIES)\<close>, \<^verbatim>\<open>store.apply(FEATURE_VIEWS)\<close> and
  \<^verbatim>\<open>store.apply(FEATURE_SERVICES)\<close>: the store is handed the list the global name is
  bound to, so what it leaves in the list is what the name holds afterwards, also when
  the call raises.
\<close>

definition store_apply_ENTITIES ::
  "('s, 'e) apply_method \<Rightarrow> 's \<Rightarrow> world \<Rightarrow> 'e option \<times> 's \<times> world" where
  "store_apply_ENTITIES ap s w =
     (case on_entities ap s (ENTITIES (globals w)) of
        (r, s', es) \<Rightarrow>
          (r, s', w\<lparr>events := events w @ [Apply (EntityList (ENTITIES (globals w)))],
                    globals := (globals w)\<lparr>ENTITIES := es\<rparr>\<rparr>))"

definition store_apply_FEATURE_VIEWS ::
  "('s, 'e) apply_method \<Rightarrow> 's \<Rightarrow> world \<Rightarrow> 'e option \<times> 's \<times> world" where
  "store_apply_FEATURE_VIEWS ap s w =
     (case on_feature_views ap s (FEATURE_VIEWS (globals w)) of
        (r, s', vs) \<Rightarrow>
          (r, s', w\<lparr>events := events w @ [Apply (FeatureViewList (FEATURE_VIEWS (globals w)))],
                    globals := (globals w)\<lparr>FEATURE_VIEWS := vs\<rparr>\<rparr>))"

definition store_apply_FEATURE_SERVICES ::
  "('s, 'e) apply_method \<Rightarrow> 's \<Rightarrow> world \<Rightarrow> 'e option \<times> 's \<times> world" where
  "store_apply_FEATURE_SERVICES ap s w =
     (case on_feature_services ap s (FEATURE_SERVICES (globals w)) of
        (r, s', svs) \<Rightarrow>
          (r, s',
           w\<lparr>events := events w @ [Apply (FeatureServiceList (FEATURE_SERVICES (globals w)))],
             globals := (globals w)\<lparr>FEATURE_SERVICES := svs\<rparr>\<rparr>))"

text \<open>
  \<^verbatim>\<open>apply_feature_definitions(store)\<close>. The result is the exception that leaves the
  function (\<open>None\<close> when it returns), the state of the store and the world. There is
  no \<^verbatim>\<open>try\<close> in the function: an exception raised by \<^verbatim>\<open>store.apply\<close> ends it.
\<close>

definition apply_feature_definitions ::
  "('s, 'e) apply_method \<Rightarrow> 's \<Rightarrow> world \<Rightarrow> 'e option \<times> 's \<times> world" where
  "apply_feature_definitions ap s w =
     (let w1 = print ''Applying entities...'' w in
      (case store_apply_ENTITIES ap s w1 of
         (Some e, s1, w2) \<Rightarrow> (Some e, s1, w2)
       | (None, s1, w2) \<Rightarrow>
          (let w3 = print ''Applying feature views...'' w2 in
           (case store_apply_FEATURE_VIEWS ap s1 w3 of
              (Some e, s2, w4) \<Rightarrow> (Some e, s2, w4)
            | (None, s2, w4) \<Rightarrow>
               (let w5 = print ''Applying feature services...'' w4 in
                (case store_apply_FEATURE_SERVICES ap s2 w5 of
                   (Some e, s3, w6) \<Rightarrow> (Some e, s3, w6)
                 | (None, s3, w6) \<Rightarrow>
                    (None, s3,
                     print ''Feature definitions applied successfully!'' w6)))))))"

text \<open>\<^verbatim>\<open>str(n)\<close> for the result of \<^verbatim>\<open>len\<close>: the decimal digits of a natural number.\<close>

fun str :: "nat \<Rightarrow> string" where
  "str n = (if n < 10 then [''0123456789'' ! n]
            else str (n div 10) @ [''0123456789'' ! (n mod 10)])"

text \<open>
  The block under \<^verbatim>\<open>if __name__ == "__main__":\<close>. The constructor of the store is the
  parameter \<open>ctor\<close>: from the repository path it gives an exception or a fresh store.
  The result is the uncaught exception, if any, the store if one was built, and the world.
  The summary prints \<^verbatim>\<open>len\<close> of the four lists as they are after registration.
\<close>

definition module_main ::
  "(string \<Rightarrow> 'e + 's) \<Rightarrow> ('s, 'e) apply_method \<Rightarrow> world \<Rightarrow> 'e option \<times> 's option \<times> world" where
  "module_main ctor ap w =
     (let w0 = w\<lparr>events := events w @ [Construct ''.'']\<rparr> in
      case ctor ''.'' of
        Inl e \<Rightarrow> (Some e, None, w0)
      | Inr store \<Rightarrow>
          (case apply_feature_definitions ap store w0 of
             (Some e, s, w1) \<Rightarrow> (Some e, Some s, w1)
           | (None, s, w1) \<Rightarrow>
               (None, Some s,
                print (''Data Sources: '' @ str (length (DATA_SOURCES (globals w1))))
                 (print (''Feature Services: '' @ str (length (FEATURE_SERVICES (globals w1))))
                   (print (''Feature Views: '' @ str (length (FEATURE_VIEWS (globals w1))))
                     (print (''Entities: '' @ str (length (ENTITIES (globals w1))))
                       (print (CHR 0x0A # ''Feature Store Summary:'') w1)))))))"

text \<open>The world when the interpreter starts the main block: nothing done yet.\<close>

definition initial_world :: world where
  "initial_world = \<lparr>events = [], globals = module_load\<rparr>"

text \<open>The lines on standard output and the lists handed to \<^verbatim>\<open>store.apply\<close>, in order.\<close>

fun printed :: "event \<Rightarrow> string list" where
  "printed (Print line) = [line]"
| "printed (Construct p) = []"
| "printed (Apply objs) = []"

fun applied :: "event \<Rightarrow> objects list" where
  "applied (Apply objs) = [objs]"
| "applied (Print line) = []"
| "applied (Construct p) = []"

definition stdout :: "world \<Rightarrow> string list" where
  "stdout w = concat (map printed (events w))"

definition apply_calls :: "world \<Rightarrow> objects list" where
  "apply_calls w = concat (map applied (events w))"

text \<open>
  What a store may be known to respect. \<open>leaves_unchanged ap g\<close>: handed one of the
  three registered lists of \<open>g\<close>, in any state of the store, \<^verbatim>\<open>apply\<close> leaves the
  list as it was. \<open>keeps_lengths ap g\<close>: it leaves as many elements as there were.
\<close>

definition leaves_unchanged :: "('s, 'e) apply_method \<Rightarrow> module_globals \<Rightarrow> bool" where
  "leaves_unchanged ap g \<longleftrightarrow>
     (\<forall>s. snd (snd (on_entities ap s (ENTITIES g))) = ENTITIES g) \<and>
     (\<forall>s. snd (snd (on_feature_views ap s (FEATURE_VIEWS g))) = FEATURE_VIEWS g) \<and>
     (\<forall>s. snd (snd (on_feature_services ap s (FEATURE_SERVICES g))) = FEATURE_SERVICES g)"

definition keeps_lengths :: "('s, 'e) apply_method \<Rightarrow> module_globals \<Rightarrow> bool" where
  "keeps_lengths ap g \<longleftrightarrow>
     (\<forall>s. length (snd (snd (on_entities ap s (ENTITIES g)))) = length (ENTITIES g)) \<and>
     (\<forall>s. length (snd (snd (on_feature_views ap s (FEATURE_VIEWS g)))) =
           length (FEATURE_VIEWS g)) \<and>
     (\<forall>s. length (snd (snd (on_feature_services ap s (FEATURE_SERVICES g)))) =
           length (FEATURE_SERVICES g))"

text \<open>
  Stores to run the module against. The state of each is the number of \<^verbatim>\<open>apply\<close>
  calls it has received. \<open>failing_store k\<close> raises at the call numbered \<open>k\<close> (from 0)
  and leaves every list as it is; \<open>clearing_store\<close> never raises and empties the list
  it is handed (\<^verbatim>\<open>objs.clear()\<close>). A store directory always opens.
\<close>

definition failing_apply :: "nat \<Rightarrow> nat \<Rightarrow> 'a list \<Rightarrow> string option \<times> nat \<times> 'a list" where
  "failing_apply k n objs = (if n = k then Some ''apply failed'' else None, Suc n, objs)"

definition failing_store :: "nat \<Rightarrow> (nat, string) apply_method" where
  "failing_store k = \<lparr>on_entities = failing_apply k, on_feature_views = failing_apply k,
     on_feature_services = failing_apply k, on_data_sources = failing_apply k\<rparr>"

definition clearing_apply :: "nat \<Rightarrow> 'a list \<Rightarrow> string option \<times> nat \<times> 'a list" where
  "clearing_apply n objs = (None, Suc n, [])"

definition clearing_store :: "(nat, string) apply_method" where
  "clearing_store = \<lparr>on_entities = clearing_apply, on_feature_views = clearing_apply,
     on_feature_services = clearing_apply, on_data_sources = clearing_apply\<rparr>"

definition open_store :: "string \<Rightarrow> string + nat" where
  "open_store repo_path = Inr 0"


section \<open>The declared registry is well formed\<close>

lemmas entity_defs = user_entity_def driver_entity_def product_entity_def location_entity_def

lemmas source_defs = user_activity_source_def driver_performance_source_def
  product_catalog_source_def transaction_source_def user_activity_stream_source_def

lemmas view_defs = user_engagement_features_def user_demographics_features_def
  driver_performance_features_def product_features_def transaction_features_def
  user_session_features_def

lemmas service_defs = recommendation_feature_service_def fraud_detection_feature_service_def
  driver_matching_feature_service_def churn_prediction_feature_service_def

lemma entity_names:
  "map entity_name (ENTITIES module_load) =
     [''user_id'', ''driver_id'', ''product_id'', ''location_id'']"
  by (simp add: module_load_def entity_defs)

lemma user_engagement_registered:
  "user_engagement_features \<in> set (FEATURE_VIEWS module_load)"
  by (simp add: module_load_def)

text \<open>
  C4. The names of the entities in \<^verbatim>\<open>ENTITIES\<close> are pairwise distinct: no two
  positions of the list carry the same name.
\<close>

theorem entity_names_distinct:
  "distinct (map entity_name (ENTITIES module_load))"
  unfolding entity_names by simp

text \<open>
  C3. Every entity name in the \<^verbatim>\<open>entities\<close> field of a feature view in
  \<^verbatim>\<open>FEATURE_VIEWS\<close> is the name of an entity in \<^verbatim>\<open>ENTITIES\<close>.
\<close>

theorem feature_views_reference_known_entities:
  "\<forall>v \<in> set (FEATURE_VIEWS module_load). \<forall>e \<in> set (entities v).
     e \<in> set (map entity_name (ENTITIES module_load))"
  unfolding entity_names by (simp add: module_load_def view_defs)

theorem feature_views_reference_known_entities_witness:
  "user_engagement_features \<in> set (FEATURE_VIEWS module_load) \<and>
   ''user_id'' \<in> set (entities user_engagement_features) \<and>
   ''user_id'' \<in> set (map entity_name (ENTITIES module_load))"
proof -
  have e: "''user_id'' \<in> set (entities user_engagement_features)"
    by (simp add: user_engagement_features_def)
  from feature_views_reference_known_entities user_engagement_registered e
  show ?thesis by blast
qed

text \<open>
  C10. Within each feature view in \<^verbatim>\<open>FEATURE_VIEWS\<close> the names of its features are
  pairwise distinct.
\<close>

theorem feature_names_distinct_within_view:
  "\<forall>v \<in> set (FEATURE_VIEWS module_load). distinct (map feature_name (features v))"
  by (simp add: module_load_def view_defs)

theorem feature_names_distinct_within_view_witness:
  "user_engagement_features \<in> set (FEATURE_VIEWS module_load) \<and>
   distinct (map feature_name (features user_engagement_features))"
  using feature_names_distinct_within_view user_engagement_registered by blast

text \<open>
  C8. Every feature view in \<^verbatim>\<open>FEATURE_VIEWS\<close> has a ttl of at least zero, and its
  \<^verbatim>\<open>batch_source\<close>, a single data source by the type of the field, is one of the
  declared data sources and is declared exactly once.
\<close>

theorem feature_views_ttl_and_source:
  "\<forall>v \<in> set (FEATURE_VIEWS module_load).
     0 \<le> ttl v \<and>
     batch_source v \<in> set (DATA_SOURCES module_load) \<and>
     length (filter (\<lambda>d. d = batch_source v) (DATA_SOURCES module_load)) = 1"
  by (simp add: module_load_def view_defs timedelta_def source_defs)

theorem feature_views_ttl_and_source_witness:
  "user_engagement_features \<in> set (FEATURE_VIEWS module_load) \<and>
   ttl user_engagement_features = 604800 \<and>
   0 \<le> ttl user_engagement_features \<and>
   batch_source user_engagement_features = user_activity_source \<and>
   batch_source user_engagement_features \<in> set (DATA_SOURCES module_load)"
proof -
  have "ttl user_engagement_features = 604800"
    "batch_source user_engagement_features = user_activity_source"
    by (simp_all add: user_engagement_features_def timedelta_def)
  with feature_views_ttl_and_source user_engagement_registered
  show ?thesis by auto
qed

text \<open>
  C2. Every selection of every feature service in \<^verbatim>\<open>FEATURE_SERVICES\<close> is made from a
  view in \<^verbatim>\<open>FEATURE_VIEWS\<close>, and every feature name it selects is the name of a
  feature of that view.
\<close>

theorem feature_services_select_existing_features:
  "\<forall>svc \<in> set (FEATURE_SERVICES module_load). \<forall>sel \<in> set (service_features svc).
     selected_view sel \<in> set (FEATURE_VIEWS module_load) \<and>
     (\<forall>n \<in> set (selected_names sel).
        n \<in> set (map feature_name (features (selected_view sel))))"
  by (simp add: module_load_def service_defs getitem_def view_defs)

theorem feature_services_select_existing_features_witness:
  "recommendation_feature_service \<in> set (FEATURE_SERVICES module_load) \<and>
   getitem user_engagement_features
     [''total_sessions_7d'', ''avg_session_duration_7d'', ''conversion_rate_7d'']
     \<in> set (service_features recommendation_feature_service) \<and>
   ''total_sessions_7d'' \<in> set (map feature_name (features user_engagement_features))"
proof -
  let ?sel = "getitem user_engagement_features
     [''total_sessions_7d'', ''avg_session_duration_7d'', ''conversion_rate_7d'']"
  have svc: "recommendation_feature_service \<in> set (FEATURE_SERVICES module_load)"
    by (simp add: module_load_def)
  have sel: "?sel \<in> set (service_features recommendation_feature_service)"
    by (simp add: recommendation_feature_service_def)
  have n: "''total_sessions_7d'' \<in> set (selected_names ?sel)"
    by (simp add: getitem_def)
  have v: "selected_view ?sel = user_engagement_features"
    by (simp add: getitem_def)
  from feature_services_select_existing_features svc sel
  have "\<forall>n \<in> set (selected_names ?sel).
          n \<in> set (map feature_name (features (selected_view ?sel)))"
    by blast
  with n have "''total_sessions_7d'' \<in> set (map feature_name (features (selected_view ?sel)))"
    by blast
  with svc sel v show ?thesis by simp
qed


section \<open>Registration\<close>

lemmas run_defs = apply_feature_definitions_def store_apply_ENTITIES_def
  store_apply_FEATURE_VIEWS_def store_apply_FEATURE_SERVICES_def print_def

lemmas store_defs = failing_store_def failing_apply_def clearing_store_def clearing_apply_def

text \<open>What a call that returns has done: three progress lines, three calls, the closing line.\<close>

lemma apply_feature_definitions_returns:
  assumes "apply_feature_definitions ap s w = (None, s', w')"
  shows "events w' = events w @
     [Print ''Applying entities...'', Apply (EntityList (ENTITIES (globals w))),
      Print ''Applying feature views...'', Apply (FeatureViewList (FEATURE_VIEWS (globals w))),
      Print ''Applying feature services...'',
      Apply (FeatureServiceList (FEATURE_SERVICES (globals w))),
      Print ''Feature definitions applied successfully!'']"
  using assms by (auto simp: run_defs split: prod.splits option.splits)

text \<open>Whatever happens, the events before the call are kept and new ones come after them.\<close>

lemma apply_feature_definitions_extends:
  "take (length (events w)) (events (snd (snd (apply_feature_definitions ap s w)))) = events w"
  by (simp add: run_defs split: prod.splits option.splits)

text \<open>
  The list of data sources is handed to nobody and stays as it is; the other three lists
  keep their lengths if the store keeps them.
\<close>

lemma apply_feature_definitions_lengths:
  assumes "keeps_lengths ap (globals w)"
  shows "length (ENTITIES (globals (snd (snd (apply_feature_definitions ap s w))))) =
           length (ENTITIES (globals w)) \<and>
         length (FEATURE_VIEWS (globals (snd (snd (apply_feature_definitions ap s w))))) =
           length (FEATURE_VIEWS (globals w)) \<and>
         length (FEATURE_SERVICES (globals (snd (snd (apply_feature_definitions ap s w))))) =
           length (FEATURE_SERVICES (globals w)) \<and>
         DATA_SOURCES (globals (snd (snd (apply_feature_definitions ap s w)))) =
           DATA_SOURCES (globals w)"
proof -
  have E: "\<And>s r a b. on_entities ap s (ENTITIES (globals w)) = (r, a, b) \<Longrightarrow>
             length b = length (ENTITIES (globals w))"
    using assms unfolding keeps_lengths_def by (metis snd_conv)
  have V: "\<And>s r a b. on_feature_views ap s (FEATURE_VIEWS (globals w)) = (r, a, b) \<Longrightarrow>
             length b = length (FEATURE_VIEWS (globals w))"
    using assms unfolding keeps_lengths_def by (metis snd_conv)
  have S: "\<And>s r a b. on_feature_services ap s (FEATURE_SERVICES (globals w)) = (r, a, b) \<Longrightarrow>
             length b = length (FEATURE_SERVICES (globals w))"
    using assms unfolding keeps_lengths_def by (metis snd_conv)
  show ?thesis
    by (auto simp: run_defs split: prod.splits option.splits dest!: E V S)
qed

lemma registry_lengths:
  "length (ENTITIES module_load) = 4"
  "length (FEATURE_VIEWS module_load) = 6"
  "length (FEATURE_SERVICES module_load) = 4"
  "length (DATA_SOURCES module_load) = 5"
  by (simp_all add: module_load_def)

lemma failing_store_leaves_unchanged: "leaves_unchanged (failing_store k) g"
  by (simp add: leaves_unchanged_def store_defs)

lemma failing_store_keeps_lengths: "keeps_lengths (failing_store k) g"
  by (simp add: keeps_lengths_def store_defs)

text \<open>
  C1, as stated, at a store whose first \<^verbatim>\<open>apply\<close> call raises: the function makes one
  call, with \<^verbatim>\<open>ENTITIES\<close>, not three.
\<close>

theorem apply_feature_definitions_one_call_on_failure:
  "apply_calls (snd (snd (apply_feature_definitions (failing_store 0) 0 initial_world))) =
     [EntityList (ENTITIES module_load)] \<and>
   apply_calls (snd (snd (apply_feature_definitions (failing_store 0) 0 initial_world))) \<noteq>
     [EntityList (ENTITIES module_load), FeatureViewList (FEATURE_VIEWS module_load),
      FeatureServiceList (FEATURE_SERVICES module_load)]"
  by (simp add: run_defs apply_calls_def store_defs initial_world_def)

text \<open>
  C1, amended. For every store whose \<^verbatim>\<open>apply\<close> raises neither on \<^verbatim>\<open>ENTITIES\<close> nor,
  after that, on \<^verbatim>\<open>FEATURE_VIEWS\<close>, \<^verbatim>\<open>apply_feature_definitions(store)\<close> calls
  \<^verbatim>\<open>store.apply\<close> exactly three times, in this order: with \<^verbatim>\<open>ENTITIES\<close>, with
  \<^verbatim>\<open>FEATURE_VIEWS\<close>, with \<^verbatim>\<open>FEATURE_SERVICES\<close>.
\<close>

theorem apply_feature_definitions_call_order:
  assumes "on_entities ap s (ENTITIES (globals w)) = (None, s1, es)"
    and "on_feature_views ap s1 (FEATURE_VIEWS (globals w)) = (None, s2, vs)"
  shows "apply_calls (snd (snd (apply_feature_definitions ap s w))) =
     apply_calls w @
     [EntityList (ENTITIES (globals w)),
      FeatureViewList (FEATURE_VIEWS (globals w)),
      FeatureServiceList (FEATURE_SERVICES (globals w))]"
  using assms by (simp add: run_defs apply_calls_def split: prod.splits option.splits)

theorem apply_feature_definitions_call_order_witness:
  "on_entities (failing_store 3) 0 (ENTITIES (globals initial_world)) =
     (None, 1, ENTITIES module_load) \<and>
   on_feature_views (failing_store 3) 1 (FEATURE_VIEWS (globals initial_world)) =
     (None, 2, FEATURE_VIEWS module_load) \<and>
   apply_calls (snd (snd (apply_feature_definitions (failing_store 3) 0 initial_world))) =
     [EntityList (ENTITIES module_load), FeatureViewList (FEATURE_VIEWS module_load),
      FeatureServiceList (FEATURE_SERVICES module_load)]"
proof -
  have a: "on_entities (failing_store 3) 0 (ENTITIES (globals initial_world)) =
      (None, 1, ENTITIES module_load)"
    by (simp add: store_defs initial_world_def)
  have b: "on_feature_views (failing_store 3) 1 (FEATURE_VIEWS (globals initial_world)) =
      (None, 2, FEATURE_VIEWS module_load)"
    by (simp add: store_defs initial_world_def)
  from apply_feature_definitions_call_order [OF a b] a b show ?thesis
    by (simp add: initial_world_def apply_calls_def)
qed

text \<open>
  C5. If \<^verbatim>\<open>store.apply\<close> raises \<open>e\<close> at the first, the second or the third step, then
  \<^verbatim>\<open>apply_feature_definitions\<close> ends with that same \<open>e\<close>; the store is in the state
  the failing call left it in, and the lists are as the calls made left them (nothing is
  undone); and the failing call is the last thing done: it is not repeated, no later
  \<^verbatim>\<open>apply\<close> is made and nothing more is printed.
\<close>

theorem apply_feature_definitions_propagates_error:
  "(on_entities ap s (ENTITIES (globals w)) = (Some e, s1, es) \<longrightarrow>
      apply_feature_definitions ap s w =
        (Some e, s1,
         w\<lparr>events := events w @
              [Print ''Applying entities...'', Apply (EntityList (ENTITIES (globals w)))],
           globals := (globals w)\<lparr>ENTITIES := es\<rparr>\<rparr>)) \<and>
   (on_entities ap s (ENTITIES (globals w)) = (None, s1, es) \<and>
    on_feature_views ap s1 (FEATURE_VIEWS (globals w)) = (Some e, s2, vs) \<longrightarrow>
      apply_feature_definitions ap s w =
        (Some e, s2,
         w\<lparr>events := events w @
              [Print ''Applying entities...'', Apply (EntityList (ENTITIES (globals w))),
               Print ''Applying feature views...'',
               Apply (FeatureViewList (FEATURE_VIEWS (globals w)))],
           globals := (globals w)\<lparr>ENTITIES := es, FEATURE_VIEWS := vs\<rparr>\<rparr>)) \<and>
   (on_entities ap s (ENTITIES (globals w)) = (None, s1, es) \<and>
    on_feature_views ap s1 (FEATURE_VIEWS (globals w)) = (None, s2, vs) \<and>
    on_feature_services ap s2 (FEATURE_SERVICES (globals w)) = (Some e, s3, svs) \<longrightarrow>
      apply_feature_definitions ap s w =
        (Some e, s3,
         w\<lparr>events := events w @
              [Print ''Applying entities...'', Apply (EntityList (ENTITIES (globals w))),
               Print ''Applying feature views...'',
               Apply (FeatureViewList (FEATURE_VIEWS (globals w))),
               Print ''Applying feature services...'',
               Apply (FeatureServiceList (FEATURE_SERVICES (globals w)))],
           globals := (globals w)\<lparr>ENTITIES := es, FEATURE_VIEWS := vs,
                         FEATURE_SERVICES := svs\<rparr>\<rparr>))"
  by (simp add: run_defs)

theorem apply_feature_definitions_propagates_error_witness:
  "fst (apply_feature_definitions (failing_store 0) 0 initial_world) = Some ''apply failed'' \<and>
   fst (snd (apply_feature_definitions (failing_store 0) 0 initial_world)) = 1 \<and>
   apply_calls (snd (snd (apply_feature_definitions (failing_store 0) 0 initial_world))) =
     [EntityList (ENTITIES module_load)] \<and>
   fst (apply_feature_definitions (failing_store 1) 0 initial_world) = Some ''apply failed'' \<and>
   fst (snd (apply_feature_definitions (failing_store 1) 0 initial_world)) = 2 \<and>
   apply_calls (snd (snd (apply_feature_definitions (failing_store 1) 0 initial_world))) =
     [EntityList (ENTITIES module_load), FeatureViewList (FEATURE_VIEWS module_load)] \<and>
   fst (apply_feature_definitions (failing_store 2) 0 initial_world) = Some ''apply failed'' \<and>
   fst (snd (apply_feature_definitions (failing_store 2) 0 initial_world)) = 3 \<and>
   apply_calls (snd (snd (apply_feature_definitions (failing_store 2) 0 initial_world))) =
     [EntityList (ENTITIES module_load), FeatureViewList (FEATURE_VIEWS module_load),
      FeatureServiceList (FEATURE_SERVICES module_load)]"
proof -
  let ?E = "ENTITIES (globals initial_world)"
  let ?V = "FEATURE_VIEWS (globals initial_world)"
  let ?S = "FEATURE_SERVICES (globals initial_world)"
  have first: "on_entities (failing_store 0) 0 ?E = (Some ''apply failed'', 1, ?E)"
    by (simp add: store_defs)
  have second: "on_entities (failing_store 1) 0 ?E = (None, 1, ?E) \<and>
      on_feature_views (failing_store 1) 1 ?V = (Some ''apply failed'', 2, ?V)"
    by (simp add: store_defs)
  have third: "on_entities (failing_store 2) 0 ?E = (None, 1, ?E) \<and>
      on_feature_views (failing_store 2) 1 ?V = (None, 2, ?V) \<and>
      on_feature_services (failing_store 2) 2 ?S = (Some ''apply failed'', 3, ?S)"
    by (simp add: store_defs)
  from first
    apply_feature_definitions_propagates_error
      [where ap = "failing_store 0" and s = 0 and w = initial_world
         and e = "''apply failed''" and ?s1.0 = 1 and es = ?E]
  have r1: "apply_feature_definitions (failing_store 0) 0 initial_world =
      (Some ''apply failed'', 1,
       initial_world\<lparr>events := events initial_world @
           [Print ''Applying entities...'', Apply (EntityList ?E)],
         globals := (globals initial_world)\<lparr>ENTITIES := ?E\<rparr>\<rparr>)"
    by blast
  from second
    apply_feature_definitions_propagates_error
      [where ap = "failing_store 1" and s = 0 and w = initial_world
         and e = "''apply failed''" and ?s1.0 = 1 and ?s2.0 = 2 and es = ?E and vs = ?V]
  have r2: "apply_feature_definitions (failing_store 1) 0 initial_world =
      (Some ''apply failed'', 2,
       initial_world\<lparr>events := events initial_world @
           [Print ''Applying entities...'', Apply (EntityList ?E),
            Print ''Applying feature views...'', Apply (FeatureViewList ?V)],
         globals := (globals initial_world)\<lparr>ENTITIES := ?E, FEATURE_VIEWS := ?V\<rparr>\<rparr>)"
    by blast
  from third
    apply_feature_definitions_propagates_error
      [where ap = "failing_store 2" and s = 0 and w = initial_world
         and e = "''apply failed''" and ?s1.0 = 1 and ?s2.0 = 2 and ?s3.0 = 3
         and es = ?E and vs = ?V and svs = ?S]
  have r3: "apply_feature_definitions (failing_store 2) 0 initial_world =
      (Some ''apply failed'', 3,
       initial_world\<lparr>events := events initial_world @
           [Print ''Applying entities...'', Apply (EntityList ?E),
            Print ''Applying feature views...'', Apply (FeatureViewList ?V),
            Print ''Applying feature services...'', Apply (FeatureServiceList ?S)],
         globals := (globals initial_world)\<lparr>ENTITIES := ?E, FEATURE_VIEWS := ?V,
                       FEATURE_SERVICES := ?S\<rparr>\<rparr>)"
    by blast
  show ?thesis
    unfolding r1 r2 r3 by (simp add: apply_calls_def initial_world_def)
qed

text \<open>
  C6. Whatever the store does, no call of \<^verbatim>\<open>store.apply\<close> made by
  \<^verbatim>\<open>apply_feature_definitions\<close> is handed a list of data sources, so
  \<^verbatim>\<open>DATA_SOURCES\<close> is never registered directly. The five declared data sources
  are exactly the batch sources of the feature views in \<^verbatim>\<open>FEATURE_VIEWS\<close>.
\<close>

theorem data_sources_never_applied:
  "DataSourceList ds \<notin>
     set (apply_calls (snd (snd
       (apply_feature_definitions ap s \<lparr>events = [], globals = g\<rparr>)))) \<and>
   set (DATA_SOURCES module_load) = batch_source ` set (FEATURE_VIEWS module_load) \<and>
   length (DATA_SOURCES module_load) = 5"
proof -
  have "DataSourceList ds \<notin>
     set (apply_calls (snd (snd
       (apply_feature_definitions ap s \<lparr>events = [], globals = g\<rparr>))))"
    by (simp add: run_defs apply_calls_def split: prod.splits option.splits)
  moreover have "set (DATA_SOURCES module_load) = batch_source ` set (FEATURE_VIEWS module_load)"
    by (auto simp: module_load_def view_defs)
  ultimately show ?thesis by (simp add: registry_lengths)
qed

text \<open>
  C9, as stated, at a store whose \<^verbatim>\<open>apply\<close> empties the list it is handed: the
  function hands over the list objects themselves, so after the call \<^verbatim>\<open>ENTITIES\<close>,
  \<^verbatim>\<open>FEATURE_VIEWS\<close> and \<^verbatim>\<open>FEATURE_SERVICES\<close> are empty, not what they were at
  module load.
\<close>

theorem apply_feature_definitions_lists_emptied:
  "ENTITIES (globals (snd (snd
     (apply_feature_definitions clearing_store 0 initial_world)))) = [] \<and>
   FEATURE_VIEWS (globals (snd (snd
     (apply_feature_definitions clearing_store 0 initial_world)))) = [] \<and>
   FEATURE_SERVICES (globals (snd (snd
     (apply_feature_definitions clearing_store 0 initial_world)))) = [] \<and>
   globals (snd (snd (apply_feature_definitions clearing_store 0 initial_world))) \<noteq>
     module_load"
proof -
  have g: "globals (snd (snd (apply_feature_definitions clearing_store 0 initial_world))) =
      module_load\<lparr>ENTITIES := [], FEATURE_VIEWS := [], FEATURE_SERVICES := []\<rparr>"
    by (simp add: run_defs store_defs initial_world_def)
  have "ENTITIES module_load \<noteq> []"
    by (simp add: module_load_def)
  then have "module_load\<lparr>ENTITIES := [], FEATURE_VIEWS := [], FEATURE_SERVICES := []\<rparr> \<noteq>
      module_load"
    by (metis module_globals.select_convs(1) module_globals.surjective
          module_globals.update_convs(1) module_globals.update_convs(2)
          module_globals.update_convs(3))
  with g show ?thesis by simp
qed

text \<open>
  C9, amended. \<^verbatim>\<open>apply_feature_definitions\<close> itself changes none of the registry
  lists: for every store whose \<^verbatim>\<open>apply\<close> leaves the list it is handed as it was, the
  lists bound to \<^verbatim>\<open>ENTITIES\<close>, \<^verbatim>\<open>FEATURE_VIEWS\<close>, \<^verbatim>\<open>FEATURE_SERVICES\<close> and
  \<^verbatim>\<open>DATA_SOURCES\<close> after the call are the ones bound before it, whether the call
  returns or ends in the store's exception.
\<close>

theorem apply_feature_definitions_keeps_globals:
  assumes "leaves_unchanged ap (globals w)"
  shows "globals (snd (snd (apply_feature_definitions ap s w))) = globals w"
proof -
  have E: "\<And>s r a b. on_entities ap s (ENTITIES (globals w)) = (r, a, b) \<Longrightarrow>
             b = ENTITIES (globals w)"
    using assms unfolding leaves_unchanged_def by (metis snd_conv)
  have V: "\<And>s r a b. on_feature_views ap s (FEATURE_VIEWS (globals w)) = (r, a, b) \<Longrightarrow>
             b = FEATURE_VIEWS (globals w)"
    using assms unfolding leaves_unchanged_def by (metis snd_conv)
  have S: "\<And>s r a b. on_feature_services ap s (FEATURE_SERVICES (globals w)) = (r, a, b) \<Longrightarrow>
             b = FEATURE_SERVICES (globals w)"
    using assms unfolding leaves_unchanged_def by (metis snd_conv)
  show ?thesis
    by (auto simp: run_defs split: prod.splits option.splits dest!: E V S)
qed

theorem apply_feature_definitions_keeps_globals_witness:
  "leaves_unchanged (failing_store 3) (globals initial_world) \<and>
   fst (apply_feature_definitions (failing_store 3) 0 initial_world) = None \<and>
   globals (snd (snd (apply_feature_definitions (failing_store 3) 0 initial_world))) =
     module_load \<and>
   leaves_unchanged (failing_store 1) (globals initial_world) \<and>
   fst (apply_feature_definitions (failing_store 1) 0 initial_world) = Some ''apply failed'' \<and>
   globals (snd (snd (apply_feature_definitions (failing_store 1) 0 initial_world))) =
     module_load"
proof -
  have r3: "fst (apply_feature_definitions (failing_store 3) 0 initial_world) = None"
    by (simp add: run_defs store_defs)
  have r1: "fst (apply_feature_definitions (failing_store 1) 0 initial_world) =
      Some ''apply failed''"
    by (simp add: run_defs store_defs)
  have g: "globals initial_world = module_load"
    by (simp add: initial_world_def)
  have u3: "leaves_unchanged (failing_store 3) (globals initial_world)"
    by (rule failing_store_leaves_unchanged)
  have u1: "leaves_unchanged (failing_store 1) (globals initial_world)"
    by (rule failing_store_leaves_unchanged)
  from apply_feature_definitions_keeps_globals [OF u3, of 0]
       apply_feature_definitions_keeps_globals [OF u1, of 0]
       u3 u1 r3 r1 g
  show ?thesis by simp
qed


section \<open>The main block\<close>

declare str.simps [simp del]

lemma str_digit: "n < 10 \<Longrightarrow> str n = [''0123456789'' ! n]"
  by (simp add: str.simps)

lemma summary_counts:
  "str 0 = ''0''" "str 4 = ''4''" "str 5 = ''5''" "str 6 = ''6''"
  by (simp_all add: str_digit)

text \<open>
  C7, as stated, at a store directory that opens and two stores. One raises at its first
  \<^verbatim>\<open>apply\<close> call: the only line on standard output is the first progress line, and
  no summary is printed. The other never raises and empties each list it is handed: the
  summary printed reports 0 entities, 0 feature views and 0 feature services, since it
  prints the lengths of the lists the store has been handed.
\<close>

theorem module_main_summary_not_as_claimed:
  "stdout (snd (snd (module_main open_store (failing_store 0) initial_world))) =
     [''Applying entities...''] \<and>
   ''Entities: 4'' \<notin>
     set (stdout (snd (snd (module_main open_store (failing_store 0) initial_world)))) \<and>
   fst (module_main open_store clearing_store initial_world) = None \<and>
   stdout (snd (snd (module_main open_store clearing_store initial_world))) =
     [''Applying entities...'', ''Applying feature views...'',
      ''Applying feature services...'', ''Feature definitions applied successfully!'',
      CHR 0x0A # ''Feature Store Summary:'',
      ''Entities: 0'', ''Feature Views: 0'', ''Feature Services: 0'', ''Data Sources: 5'']"
proof -
  have "stdout (snd (snd (module_main open_store (failing_store 0) initial_world))) =
     [''Applying entities...'']"
    by (simp add: module_main_def open_store_def run_defs stdout_def store_defs
          initial_world_def)
  moreover have "fst (module_main open_store clearing_store initial_world) = None"
    by (simp add: module_main_def open_store_def run_defs store_defs initial_world_def
          Let_def)
  moreover have "stdout (snd (snd (module_main open_store clearing_store initial_world))) =
     [''Applying entities...'', ''Applying feature views...'',
      ''Applying feature services...'', ''Feature definitions applied successfully!'',
      CHR 0x0A # ''Feature Store Summary:'',
      ''Entities: 0'', ''Feature Views: 0'', ''Feature Services: 0'', ''Data Sources: 5'']"
    by (simp add: module_main_def open_store_def run_defs stdout_def store_defs
          initial_world_def registry_lengths summary_counts)
  ultimately show ?thesis by simp
qed

text \<open>
  C7, amended. Run as \<^verbatim>\<open>__main__\<close>, the module first calls the store constructor
  with the repository path \<^verbatim>\<open>"."\<close>, the current working directory. If the run ends
  without an exception and the store's \<^verbatim>\<open>apply\<close> leaves in each list it is handed as
  many elements as there were, then the module has called
  \<^verbatim>\<open>apply_feature_definitions\<close> on that store (three calls of \<^verbatim>\<open>apply\<close>, four
  lines printed) and after it has printed the summary: the heading, then 4 entities, 6
  feature views, 4 feature services and 5 data sources, in that order.
\<close>

theorem module_main_summary:
  "take 1 (events (snd (snd (module_main ctor ap initial_world)))) = [Construct ''.''] \<and>
   (fst (module_main ctor ap initial_world) = None \<and> keeps_lengths ap module_load \<longrightarrow>
    events (snd (snd (module_main ctor ap initial_world))) =
     [Construct ''.'',
      Print ''Applying entities...'', Apply (EntityList (ENTITIES module_load)),
      Print ''Applying feature views...'', Apply (FeatureViewList (FEATURE_VIEWS module_load)),
      Print ''Applying feature services...'',
      Apply (FeatureServiceList (FEATURE_SERVICES module_load)),
      Print ''Feature definitions applied successfully!'',
      Print (CHR 0x0A # ''Feature Store Summary:''),
      Print ''Entities: 4'', Print ''Feature Views: 6'',
      Print ''Feature Services: 4'', Print ''Data Sources: 5''])"
proof -
  let ?w0 = "\<lparr>events = [Construct ''.''], globals = module_load\<rparr>"
  show ?thesis
  proof (cases "ctor ''.''")
    case (Inl e)
    then show ?thesis by (simp add: module_main_def initial_world_def)
  next
    case (Inr store)
    obtain r s' w' where res: "apply_feature_definitions ap store ?w0 = (r, s', w')"
      by (cases "apply_feature_definitions ap store ?w0") auto
    have start: "take 1 (events w') = [Construct ''.'']"
      using apply_feature_definitions_extends [where ap = ap and s = store and w = ?w0] res
      by simp
    show ?thesis
    proof (cases r)
      case (Some e)
      with Inr res start show ?thesis
        by (simp add: module_main_def initial_world_def)
    next
      case None
      with res have ret: "apply_feature_definitions ap store ?w0 = (None, s', w')" by simp
      from ret have ev: "events w' = events ?w0 @
         [Print ''Applying entities...'', Apply (EntityList (ENTITIES (globals ?w0))),
          Print ''Applying feature views...'',
          Apply (FeatureViewList (FEATURE_VIEWS (globals ?w0))),
          Print ''Applying feature services...'',
          Apply (FeatureServiceList (FEATURE_SERVICES (globals ?w0))),
          Print ''Feature definitions applied successfully!'']"
        by (rule apply_feature_definitions_returns)
      have main: "module_main ctor ap initial_world =
          (None, Some s',
           print (''Data Sources: '' @ str (length (DATA_SOURCES (globals w'))))
            (print (''Feature Services: '' @ str (length (FEATURE_SERVICES (globals w'))))
              (print (''Feature Views: '' @ str (length (FEATURE_VIEWS (globals w'))))
                (print (''Entities: '' @ str (length (ENTITIES (globals w'))))
                  (print (CHR 0x0A # ''Feature Store Summary:'') w')))))"
        using Inr ret by (simp add: module_main_def initial_world_def)
      have first: "take 1 (events (snd (snd (module_main ctor ap initial_world)))) =
          [Construct ''.'']"
        unfolding main using ev by (simp add: print_def)
      have rest: "events (snd (snd (module_main ctor ap initial_world))) =
         [Construct ''.'',
          Print ''Applying entities...'', Apply (EntityList (ENTITIES module_load)),
          Print ''Applying feature views...'',
          Apply (FeatureViewList (FEATURE_VIEWS module_load)),
          Print ''Applying feature services...'',
          Apply (FeatureServiceList (FEATURE_SERVICES module_load)),
          Print ''Feature definitions applied successfully!'',
          Print (CHR 0x0A # ''Feature Store Summary:''),
          Print ''Entities: 4'', Print ''Feature Views: 6'',
          Print ''Feature Services: 4'', Print ''Data Sources: 5'']"
        if keep: "keeps_lengths ap module_load"
      proof -
        from keep have "keeps_lengths ap (globals ?w0)" by simp
        from apply_feature_definitions_lengths [OF this, of store] ret
        have "length (ENTITIES (globals w')) = 4"
          "length (FEATURE_VIEWS (globals w')) = 6"
          "length (FEATURE_SERVICES (globals w')) = 4"
          "length (DATA_SOURCES (globals w')) = 5"
          by (simp_all add: registry_lengths)
        then show ?thesis
          unfolding main using ev by (simp add: print_def summary_counts)
      qed
      from first rest show ?thesis by blast
    qed
  qed
qed

theorem module_main_summary_witness:
  "fst (module_main open_store (failing_store 3) initial_world) = None \<and>
   keeps_lengths (failing_store 3) module_load \<and>
   stdout (snd (snd (module_main open_store (failing_store 3) initial_world))) =
     [''Applying entities...'', ''Applying feature views...'',
      ''Applying feature services...'', ''Feature definitions applied successfully!'',
      CHR 0x0A # ''Feature Store Summary:'',
      ''Entities: 4'', ''Feature Views: 6'', ''Feature Services: 4'', ''Data Sources: 5'']"
proof -
  have ok: "fst (module_main open_store (failing_store 3) initial_world) = None"
    by (simp add: module_main_def open_store_def run_defs store_defs initial_world_def
          Let_def)
  have keep: "keeps_lengths (failing_store 3) module_load"
    by (rule failing_store_keeps_lengths)
  from ok keep module_main_summary [of open_store "failing_store 3"]
  have "events (snd (snd (module_main open_store (failing_store 3) initial_world))) =
     [Construct ''.'',
      Print ''Applying entities...'', Apply (EntityList (ENTITIES module_load)),
      Print ''Applying feature views...'', Apply (FeatureViewList (FEATURE_VIEWS module_load)),
      Print ''Applying feature services...'',
      Apply (FeatureServiceList (FEATURE_SERVICES module_load)),
      Print ''Feature definitions applied successfully!'',
      Print (CHR 0x0A # ''Feature Store Summary:''),
      Print ''Entities: 4'', Print ''Feature Views: 6'',
      Print ''Feature Services: 4'', Print ''Data Sources: 5'']"
    by blast
  with ok keep show ?thesis by (simp add: stdout_def)
qed

end
